theory Spec2Isabelle
  imports Main
begin

section \<open>Errors\<close>

text \<open>
  Go's \<open>error\<close> is an interface value that may be \<open>nil\<close>: it is modelled as
  \<open>error option\<close>, \<open>None\<close> being \<open>nil\<close>. The error values themselves are those of the
  library \<open>github.com/gravitational/trace\<close> the sources use: a classified error with its
  message, a wrapper (\<open>trace.Wrap\<close>, with an optional message) and an aggregate
  (\<open>trace.NewAggregate\<close>).
\<close>

datatype error_kind =
  NotFound | AlreadyExists | NotImplemented | BadParameter | PreconditionFailed | Aborted | Generic

datatype error =
  Error error_kind string
| TraceErr string error
| Aggregate "error list"

text \<open>
  \<open>trace.Wrap(err)\<close>: \<open>nil\<close> stays \<open>nil\<close>, any other error is wrapped. The library adds
  the call site to an error that is a trace error already, where the model adds one more
  wrapper; \<open>Unwrap\<close>, \<open>has_kind\<close> and \<open>carries\<close> look under any number of wrappers.
\<close>

fun trace_Wrap :: "error option \<Rightarrow> error option" where
  "trace_Wrap None = None"
| "trace_Wrap (Some err) = Some (TraceErr [] err)"

text \<open>\<open>trace.Wrap(err, message)\<close>.\<close>

fun trace_Wrap_msg :: "error option \<Rightarrow> string \<Rightarrow> error option" where
  "trace_Wrap_msg None message = None"
| "trace_Wrap_msg (Some err) message = Some (TraceErr message err)"

text \<open>\<open>trace.Unwrap\<close>: the error under the wrappers.\<close>

fun Unwrap :: "error \<Rightarrow> error" where
  "Unwrap (TraceErr message err) = Unwrap err"
| "Unwrap (Error k message) = Error k message"
| "Unwrap (Aggregate errs) = Aggregate errs"

definition has_kind :: "error_kind \<Rightarrow> error option \<Rightarrow> bool" where
  "has_kind k err =
     (case err of
        None \<Rightarrow> False
      | Some e \<Rightarrow> (case Unwrap e of Error k' message \<Rightarrow> k' = k | _ \<Rightarrow> False))"

definition IsAlreadyExists :: "error option \<Rightarrow> bool" where
  "IsAlreadyExists err = has_kind AlreadyExists err"

text \<open>
  \<open>trace.IsNotFound\<close>: the error under the wrappers is of the not-found kind. (The
  library also accepts the not-exist errors of package \<open>os\<close>, which are not among the
  errors modelled.)
\<close>

definition IsNotFound :: "error option \<Rightarrow> bool" where
  "IsNotFound err = has_kind NotFound err"

definition IsNotImplemented :: "error option \<Rightarrow> bool" where
  "IsNotImplemented err = has_kind NotImplemented err"

text \<open>
  \<open>trace.NewAggregate(errors...)\<close>: \<open>nil\<close> when there is no error to report, the
  aggregate of all of them otherwise (the library returns it inside a trace wrapper,
  which the model leaves out). The callers only ever append non-nil errors.
\<close>

definition NewAggregate :: "error list \<Rightarrow> error option" where
  "NewAggregate errors = (if errors = [] then None else Some (Aggregate errors))"

text \<open>
  Whether the error \<open>e\<close> is carried by the error \<open>r\<close> a caller receives: \<open>r\<close> is \<open>e\<close>,
  wraps an error that carries \<open>e\<close>, or aggregates one that does.
\<close>

fun carries :: "error \<Rightarrow> error \<Rightarrow> bool" where
  "carries (Error k message) e = (e = Error k message)"
| "carries (TraceErr message r) e = (e = TraceErr message r \<or> carries r e)"
| "carries (Aggregate rs) e = (e = Aggregate rs \<or> list_ex (\<lambda>r. carries r e) rs)"

section \<open>The installer (lib/install/install.go)\<close>

subsection \<open>Data\<close>

text \<open>
  The installer acts on its collaborators (the internal context, the local agent, the
  upstream process, the controller server, the logger) only through calls. The model
  records these calls, in the order they are made, in a trace that is passed along.
\<close>

text \<open>\<open>ops.SiteOperationKey\<close>: account, cluster and operation identifiers.\<close>

datatype SiteOperationKey = SiteOperationKey string string string

text \<open>\<open>ops.SiteOperation\<close>, as far as the installer reads it.\<close>

record SiteOperation =
  ID :: string
  Key :: SiteOperationKey

datatype Status = StatusCompleted | StatusCompletedPending

datatype action =
  CancelContext
| AgentStop
| StopperStop string
| ProcessShutdown
| ServerStop
| ProcessWait
| InitOperationPlan
| NewFSMCall SiteOperationKey
| ExecutePlanCall
| CompleteCall "error option"
| OpenUserLogFile
| StreamOperationLogs SiteOperationKey
| CloseUserLogFile
| EmitEvent string
| SendElapsedTime
| SendCompletionEvent Status
| Warn string error

type_synonym trace = "action list"

text \<open>
  \<open>signals.Stopper\<close>: a teardown handler. Its \<open>Stop(ctx)\<close> returns an error or \<open>nil\<close>;
  what it returns may depend on everything done before it is called.
\<close>

record Stopper =
  stopper_name :: string
  Stop :: "trace \<Rightarrow> error option"

text \<open>\<open>fsm.FSM\<close>, as far as the installer uses it.\<close>

record FSM =
  ExecutePlan :: "error option"
  Complete :: "error option \<Rightarrow> error option"

text \<open>
  \<open>RuntimeConfig\<close> is declared in another file of the package. Each field below stands
  for the result of one collaborator the installer calls through it: \<open>initOperationPlan\<close>
  (a function of the package, called with the configured operator and planner),
  \<open>FSMFactory.NewFSM\<close>, \<open>Process.Wait\<close>, \<open>Process.AgentService().StopAgents\<close>,
  \<open>os.Open\<close> of the user log file, \<open>Operator.StreamOperationLogs\<close> and
  \<open>localenv.ClusterOperator\<close>.
\<close>

record RuntimeConfig =
  initOperationPlan :: "error option"
  NewFSM :: "SiteOperationKey \<Rightarrow> error + FSM"
  Process_Wait :: "error option"
  StopAgents :: "SiteOperationKey \<Rightarrow> trace \<Rightarrow> error option"
  os_Open :: "error option"
  Operator_StreamOperationLogs :: "SiteOperationKey \<Rightarrow> error option"
  localenv_ClusterOperator :: "error option"

datatype PeerServer = PeerServer

record Installer =
  config :: RuntimeConfig
  stoppers :: "Stopper list"
  aborters :: "Stopper list"
  agent :: "PeerServer option"

subsection \<open>The teardown registries\<close>

definition addStopper :: "Installer \<Rightarrow> Stopper \<Rightarrow> Installer" where
  "addStopper i stopper = i\<lparr>stoppers := stoppers i @ [stopper]\<rparr>"

definition addAborter :: "Installer \<Rightarrow> Stopper \<Rightarrow> Installer" where
  "addAborter i aborter = i\<lparr>aborters := aborters i @ [aborter]\<rparr>"

text \<open>
  The loop \<open>for _, c := range handlers { if err := c.Stop(ctx); err != nil { errors =
  append(errors, err) } }\<close>, which \<open>stopStoppers\<close> runs over \<open>i.stoppers\<close> and
  \<open>abortWithContext\<close> over \<open>i.aborters\<close>.
\<close>

fun stopAll :: "Stopper list \<Rightarrow> error list \<Rightarrow> trace \<Rightarrow> error list \<times> trace" where
  "stopAll [] errors tr = (errors, tr)"
| "stopAll (c # cs) errors tr =
     (case Stop c tr of
        None \<Rightarrow> stopAll cs errors (tr @ [StopperStop (stopper_name c)])
      | Some err \<Rightarrow> stopAll cs (errors @ [err]) (tr @ [StopperStop (stopper_name c)]))"

definition stopStoppers :: "Installer \<Rightarrow> trace \<Rightarrow> error option \<times> trace" where
  "stopStoppers i tr =
     (case stopAll (stoppers i) [] tr of (errors, tr') \<Rightarrow> (NewAggregate errors, tr'))"

subsection \<open>Stop and abort\<close>

definition stopWithContext :: "Installer \<Rightarrow> trace \<Rightarrow> error option \<times> trace" where
  "stopWithContext i tr =
     (let tr1 = tr @ [CancelContext];
          tr2 = (case agent i of None \<Rightarrow> tr1 | Some a \<Rightarrow> tr1 @ [AgentStop])
      in case stopStoppers i tr2 of
           (err, tr3) \<Rightarrow> (trace_Wrap err, tr3 @ [ProcessShutdown] @ [ServerStop]))"

definition abortWithContext :: "Installer \<Rightarrow> trace \<Rightarrow> error option \<times> trace" where
  "abortWithContext i tr =
     (let tr1 = tr @ [CancelContext]
      in case stopAll (aborters i) [] tr1 of
           (errors, tr2) \<Rightarrow> (NewAggregate errors, tr2 @ [ProcessShutdown] @ [ServerStop]))"

definition stop :: "Installer \<Rightarrow> trace \<Rightarrow> trace" where
  "stop i tr =
     (case stopWithContext i tr of
        (None, tr') \<Rightarrow> tr'
      | (Some err, tr') \<Rightarrow> tr' @ [Warn ''Failed to stop.'' err])"

definition abort :: "Installer \<Rightarrow> trace \<Rightarrow> trace" where
  "abort i tr =
     (case abortWithContext i tr of
        (None, tr') \<Rightarrow> tr'
      | (Some err, tr') \<Rightarrow> tr' @ [Warn ''Failed to abort.'' err])"

subsection \<open>Run\<close>

text \<open>
  \<open>Run\<close> starts the server in a goroutine that sends the result of \<open>server.Run\<close> to
  \<open>errC\<close>, and blocks in a \<open>select\<close> over three channels. The state of the channels
  when the \<open>select\<close> is evaluated: \<open>errC\<close> and \<open>agentErrC\<close> hold the value that was
  sent, if any (\<open>agentErrC\<close> receives the result of the agent's \<open>ServeWithToken\<close>, and
  is \<open>nil\<close>, hence never ready, when no agent was started); \<open>doneC\<close> is closed or not.
\<close>

record RunChannels =
  errC :: "error option option"
  agentErrC :: "error option option"
  doneC_closed :: bool

datatype select_case = FromErrC "error option" | FromAgentErrC "error option" | FromDoneC

text \<open>The cases of the \<open>select\<close> that can proceed; Go picks any one of them.\<close>

definition Run_select :: "RunChannels \<Rightarrow> select_case list" where
  "Run_select ch =
     (case errC ch of None \<Rightarrow> [] | Some err \<Rightarrow> [FromErrC err]) @
     (case agentErrC ch of None \<Rightarrow> [] | Some err \<Rightarrow> [FromAgentErrC err]) @
     (if doneC_closed ch then [FromDoneC] else [])"

text \<open>
  \<open>Run\<close> once the \<open>select\<close> has taken the case \<open>c\<close>: the named result \<open>err\<close> is set by
  the \<open>return\<close>, then the deferred function runs. \<open>installpb.IsAbortedErr\<close> is declared
  in the package lib/install/proto and is a parameter here.
\<close>

definition Run :: "(error option \<Rightarrow> bool) \<Rightarrow> Installer \<Rightarrow> select_case \<Rightarrow> trace \<Rightarrow> error option \<times> trace" where
  "Run IsAbortedErr i c tr =
     (let err = (case c of
                   FromErrC e \<Rightarrow> trace_Wrap e
                 | FromAgentErrC e \<Rightarrow> trace_Wrap e
                 | FromDoneC \<Rightarrow> None)
      in (err, if IsAbortedErr err then abort i tr else stop i tr))"

text \<open>
  All the ways \<open>Run\<close> can return from a given state of the channels; the empty list
  when the \<open>select\<close> blocks.
\<close>

definition Run_returns :: "(error option \<Rightarrow> bool) \<Rightarrow> Installer \<Rightarrow> RunChannels \<Rightarrow> trace \<Rightarrow> (error option \<times> trace) list" where
  "Run_returns IsAbortedErr i ch tr = map (\<lambda>c. Run IsAbortedErr i c tr) (Run_select ch)"

subsection \<open>ExecuteOperation\<close>

definition ExecuteOperation :: "Installer \<Rightarrow> SiteOperationKey \<Rightarrow> trace \<Rightarrow> error option \<times> trace" where
  "ExecuteOperation i operationKey tr =
     (let err = initOperationPlan (config i);
          tr1 = tr @ [InitOperationPlan]
      in if err \<noteq> None \<and> \<not> IsAlreadyExists err then (trace_Wrap err, tr1)
         else
           (case NewFSM (config i) operationKey of
              Inl err \<Rightarrow> (trace_Wrap (Some err), tr1 @ [NewFSMCall operationKey])
            | Inr machine \<Rightarrow>
                (let tr2 = tr1 @ [NewFSMCall operationKey];
                     err = ExecutePlan machine;
                     tr3 = tr2 @ [ExecutePlanCall];
                     tr4 = (case err of
                              None \<Rightarrow> tr3
                            | Some e \<Rightarrow> tr3 @ [Warn ''Failed to execute operation plan.'' e]);
                     completeErr = Complete machine err;
                     tr5 = tr4 @ [CompleteCall err]
                 in case completeErr of
                      None \<Rightarrow> (trace_Wrap err, tr5)
                    | Some ce \<Rightarrow>
                        (trace_Wrap (if err = None then completeErr else err),
                         tr5 @ [Warn ''Failed to complete operation.'' ce]))))"

subsection \<open>Completing the operation\<close>

definition uploadInstallLog :: "Installer \<Rightarrow> SiteOperationKey \<Rightarrow> trace \<Rightarrow> error option \<times> trace" where
  "uploadInstallLog i operationKey tr =
     (case os_Open (config i) of
        Some err \<Rightarrow> (trace_Wrap (Some err), tr @ [OpenUserLogFile])
      | None \<Rightarrow>
          (let tr1 = tr @ [OpenUserLogFile] @ [StreamOperationLogs operationKey]
           in case Operator_StreamOperationLogs (config i) operationKey of
                Some err \<Rightarrow>
                  (trace_Wrap_msg (Some err) ''failed to upload install log'',
                   tr1 @ [CloseUserLogFile])
              | None \<Rightarrow> (None, tr1 @ [CloseUserLogFile])))"

definition emitAuditEvents :: "Installer \<Rightarrow> SiteOperation \<Rightarrow> trace \<Rightarrow> error option \<times> trace" where
  "emitAuditEvents i operation tr =
     (case localenv_ClusterOperator (config i) of
        Some err \<Rightarrow> (trace_Wrap (Some err), tr @ [Warn ''Failed to create cluster operator.'' err])
      | None \<Rightarrow>
          (None, tr @ [EmitEvent ''OperationInstallStart''] @ [EmitEvent ''OperationInstallComplete'']))"

text \<open>
  \<open>completeOperation\<close> changes the installer (it registers the stopper that stops the
  agents), so the installer is returned with the error and the trace.
\<close>

definition completeOperation :: "Installer \<Rightarrow> SiteOperation \<Rightarrow> Status \<Rightarrow> trace \<Rightarrow> error option \<times> Installer \<times> trace" where
  "completeOperation i operation status tr =
     (case uploadInstallLog i (Key operation) tr of
        (err1, tr1) \<Rightarrow>
          (case emitAuditEvents i operation tr1 of
             (err2, tr2) \<Rightarrow>
               (let errors = (case err1 of None \<Rightarrow> [] | Some e \<Rightarrow> [e]) @
                             (case err2 of None \<Rightarrow> [] | Some e \<Rightarrow> [e]);
                    i' = addStopper i
                           \<lparr>stopper_name = ''StopAgents'',
                            Stop = (\<lambda>t. trace_Wrap (StopAgents (config i) (Key operation) t))\<rparr>
                in (NewAggregate errors, i',
                    tr2 @ [SendElapsedTime] @ [SendCompletionEvent status]))))"

definition CompleteOperation :: "Installer \<Rightarrow> SiteOperation \<Rightarrow> trace \<Rightarrow> error option \<times> Installer \<times> trace" where
  "CompleteOperation i operation tr = completeOperation i operation StatusCompleted tr"

text \<open>\<open>wait\<close> runs the stoppers, drops what they return, and waits for the process.\<close>

definition wait :: "Installer \<Rightarrow> trace \<Rightarrow> error option \<times> trace" where
  "wait i tr =
     (case stopStoppers i tr of
        (dropped, tr1) \<Rightarrow> (trace_Wrap (Process_Wait (config i)), tr1 @ [ProcessWait]))"

definition CompleteOperationAndWait :: "Installer \<Rightarrow> SiteOperation \<Rightarrow> trace \<Rightarrow> error option \<times> Installer \<times> trace" where
  "CompleteOperationAndWait i operation tr =
     (case completeOperation i operation StatusCompletedPending tr of
        (err1, i', tr1) \<Rightarrow>
          (case wait i' tr1 of
             (err2, tr2) \<Rightarrow>
               (NewAggregate ((case err1 of None \<Rightarrow> [] | Some e \<Rightarrow> [e]) @
                              (case err2 of None \<Rightarrow> [] | Some e \<Rightarrow> [e])),
                i', tr2)))"

subsection \<open>Execute and the execution token\<close>

text \<open>
  \<open>Execute\<close> is called by the server once per client request, each call in a goroutine
  of its own with the context of its request. Every call runs

  \<^verbatim>\<open>i.waitForExecuteToken(ctx); defer i.releaseExecuteToken(); <phase work>\<close>

  where \<open>waitForExecuteToken\<close> is a \<open>select\<close> between sending to \<open>executeSema\<close> (a channel
  of capacity 1) and receiving from \<open>ctx.Done()\<close>, and \<open>releaseExecuteToken\<close> receives
  from \<open>executeSema\<close>. The calls interleave: the model is a transition system whose
  state holds the number of values buffered in \<open>executeSema\<close> and, for each call, where
  it stands and whether its context has been cancelled.
\<close>

datatype location = AtWaitForExecuteToken | InPhaseWork | AtReleaseExecuteToken | Returned

record ExecuteCall =
  loc :: location
  ctx_done :: bool

record ExecuteState =
  executeSema :: nat
  calls :: "ExecuteCall list"

text \<open>\<open>executeSema: make(chan struct{}, 1)\<close>.\<close>

definition executeSema_cap :: nat where
  "executeSema_cap = 1"

text \<open>
  The steps, each by the call with the given index: the send of \<open>waitForExecuteToken\<close>
  proceeds (the buffer has room); its \<open>ctx.Done()\<close> case proceeds (the context is
  cancelled); the phase work ends; the receive of \<open>releaseExecuteToken\<close> proceeds (the
  buffer holds a value). \<open>CancelCtx\<close> is the environment cancelling the call's context.
\<close>

datatype step =
  SendToken nat
| CtxDone nat
| PhaseWorkDone nat
| ReceiveToken nat
| CancelCtx nat

definition move :: "ExecuteState \<Rightarrow> nat \<Rightarrow> location \<Rightarrow> ExecuteState" where
  "move s k l = s\<lparr>calls := (calls s)[k := (calls s ! k)\<lparr>loc := l\<rparr>]\<rparr>"

definition stands :: "ExecuteState \<Rightarrow> nat \<Rightarrow> location \<Rightarrow> bool" where
  "stands s k l = (k < length (calls s) \<and> loc (calls s ! k) = l)"

text \<open>A step that cannot proceed (the call is elsewhere, or would block) gives \<open>None\<close>.\<close>

fun execute_step :: "step \<Rightarrow> ExecuteState \<Rightarrow> ExecuteState option" where
  "execute_step (SendToken k) s =
     (if stands s k AtWaitForExecuteToken \<and> executeSema s < executeSema_cap
      then Some ((move s k InPhaseWork)\<lparr>executeSema := executeSema s + 1\<rparr>)
      else None)"
| "execute_step (CtxDone k) s =
     (if stands s k AtWaitForExecuteToken \<and> ctx_done (calls s ! k)
      then Some (move s k InPhaseWork)
      else None)"
| "execute_step (PhaseWorkDone k) s =
     (if stands s k InPhaseWork then Some (move s k AtReleaseExecuteToken) else None)"
| "execute_step (ReceiveToken k) s =
     (if stands s k AtReleaseExecuteToken \<and> 0 < executeSema s
      then Some ((move s k Returned)\<lparr>executeSema := executeSema s - 1\<rparr>)
      else None)"
| "execute_step (CancelCtx k) s =
     (if k < length (calls s)
      then Some (s\<lparr>calls := (calls s)[k := (calls s ! k)\<lparr>ctx_done := True\<rparr>]\<rparr>)
      else None)"

fun execute_run :: "step list \<Rightarrow> ExecuteState \<Rightarrow> ExecuteState option" where
  "execute_run [] s = Some s"
| "execute_run (e # es) s =
     (case execute_step e s of None \<Rightarrow> None | Some s' \<Rightarrow> execute_run es s')"

text \<open>\<open>n\<close> calls of \<open>Execute\<close> have been made, none has taken a step, the buffer is empty.\<close>

definition execute_init :: "nat \<Rightarrow> ExecuteState" where
  "execute_init n =
     \<lparr>executeSema = 0, calls = replicate n \<lparr>loc = AtWaitForExecuteToken, ctx_done = False\<rparr>\<rparr>"

text \<open>The number of calls that are in their phase work.\<close>

definition phase_workers :: "ExecuteState \<Rightarrow> nat" where
  "phase_workers s = length (filter (\<lambda>c. loc c = InPhaseWork) (calls s))"

text \<open>The number of calls between \<open>waitForExecuteToken\<close> and \<open>releaseExecuteToken\<close>.\<close>

definition inside :: "ExecuteState \<Rightarrow> nat" where
  "inside s =
     length (filter (\<lambda>c. loc c = InPhaseWork \<or> loc c = AtReleaseExecuteToken) (calls s))"

fun is_cancel :: "step \<Rightarrow> bool" where
  "is_cancel (CancelCtx k) = True"
| "is_cancel (SendToken k) = False"
| "is_cancel (CtxDone k) = False"
| "is_cancel (PhaseWorkDone k) = False"
| "is_cancel (ReceiveToken k) = False"

section \<open>Updating the cluster configuration (tool/gravity/cli/clusterconfig.go)\<close>

subsection \<open>Data\<close>

text \<open>\<open>ops.SiteKey\<close>: account and cluster name.\<close>

datatype SiteKey = SiteKey string string

text \<open>\<open>storage.Server\<close>, as far as the configuration update reads it.\<close>

record Server =
  AdvertiseIP :: string
  Hostname :: string

text \<open>\<open>ops.Site\<close>: \<open>cluster.Key()\<close> and \<open>cluster.ClusterState.Servers\<close>.\<close>

record Site =
  site_Key :: SiteKey
  Servers :: "Server list"

text \<open>
  \<open>libclusterconfig.Interface\<close>: of the global configuration that \<open>GetGlobalConfig\<close>
  returns, the update reads the two CIDR ranges.
\<close>

record Global =
  ServiceCIDR :: string
  PodCIDR :: string

record ClusterConfig =
  GetGlobalConfig :: Global

record CreateUpdateConfigOperationRequest =
  ClusterKey :: SiteKey
  Config :: string

text \<open>\<open>ops.Operator\<close>, the three calls the configuration update makes.\<close>

record Operator =
  GetLocalSite :: "error + Site"
  GetClusterConfiguration :: "SiteKey \<Rightarrow> error + ClusterConfig"
  CreateUpdateConfigOperation :: "CreateUpdateConfigOperationRequest \<Rightarrow> error + SiteOperationKey"

record LocalEnvironment =
  SiteOperator :: "error + Operator"

record configInitializer =
  resource :: string
  initializer_config :: ClusterConfig

text \<open>\<open>update.Updater\<close>: what its \<open>Run\<close> returns.\<close>

record Updater =
  updater_Run :: "error option"

text \<open>
  The functions that \<open>clusterconfig.go\<close> calls and that are declared in other files of
  the repository are parameters: \<open>validate.ClusterConfiguration\<close>, \<open>findLocalServer\<close>,
  \<open>confirm\<close> (the answer read from the terminal), \<open>libclusterconfig.Marshal\<close> and
  \<open>newUpdater\<close> (which creates the operation and its plan through the initializer and
  returns the wired updater). \<open>Sprint_Servers\<close> is the \<open>%v\<close> rendering of the server
  list, and \<open>cidr_contains cidr ip\<close> the test whether the network \<open>cidr\<close> contains the
  address \<open>ip\<close>.
\<close>

record Collaborators =
  validate_ClusterConfiguration :: "ClusterConfig \<Rightarrow> ClusterConfig \<Rightarrow> error option"
  findLocalServer :: "Server list \<Rightarrow> error + Server"
  Sprint_Servers :: "Server list \<Rightarrow> string"
  cidr_contains :: "string \<Rightarrow> string \<Rightarrow> bool"
  confirm :: "error + bool"
  Marshal :: "ClusterConfig \<Rightarrow> error + string"
  newUpdater :: "configInitializer \<Rightarrow> error + Updater"

text \<open>What the command does to the outside, in order.\<close>

datatype cli_action =
  Println string
| ConfirmPrompt
| NewUpdaterCall configInitializer
| UpdaterRun
| UpdaterClose

definition updateConfigBanner :: string where
  "updateConfigBanner = ''Updating cluster configuration might require restart of runtime containers on master nodes.\<newline>The operation might take a few minutes to complete.\<newline>\<newline>The operation will start automatically once you approve it.\<newline>If you want to review the operation plan first or execute it manually step by step,\<newline>run the operation in manual mode by specifying '--manual' flag.\<newline>\<newline>Are you sure?''"

definition updateConfigBannerManual :: string where
  \<open>updateConfigBannerManual = ''Updating cluster configuration might require restart of runtime containers on master nodes.\<newline>The operation might take a few minutes to complete.\<newline>\<newline>"Are you sure?''\<close>

definition updateConfigManualOperationBanner :: string where
  "updateConfigManualOperationBanner = ''The operation has been created in manual mode.\<newline>\<newline>See https://gravitational.com/gravity/docs/cluster/#managing-operations for details on working with operation plan.''"

subsection \<open>Validation\<close>

text \<open>
  Modelled from the spec: \<open>validate.NetworkOverlap\<close> (package lib/validate), whose
  source is missing. By the specification, a CIDR range that contains the local
  advertise address is rejected with a \<open>precondition-failed\<close> error that carries the
  message it is given; any other range passes.
\<close>

definition NetworkOverlap :: "(string \<Rightarrow> string \<Rightarrow> bool) \<Rightarrow> string \<Rightarrow> string \<Rightarrow> string \<Rightarrow> error option" where
  "NetworkOverlap contains ip cidr message =
     (if contains cidr ip then Some (Error PreconditionFailed message) else None)"

definition serviceCIDR_message :: "string \<Rightarrow> string \<Rightarrow> string" where
  "serviceCIDR_message ip cidr =
     ''The advertise address '' @ ip @
     '' conflicts with the global service network CIDR range '' @ cidr @ ''. '' @
     ''Please specify a different service CIDR.''"

definition podCIDR_message :: "string \<Rightarrow> string \<Rightarrow> string" where
  "podCIDR_message ip cidr =
     ''The advertise address '' @ ip @
     '' conflicts with the global pod network CIDR range '' @ cidr @ ''. '' @
     ''Please specify a different pod CIDR.''"

definition validateClusterConfig :: "Collaborators \<Rightarrow> LocalEnvironment \<Rightarrow> ClusterConfig \<Rightarrow> error option" where
  "validateClusterConfig d localEnv update =
     (case SiteOperator localEnv of
        Inl err \<Rightarrow> trace_Wrap (Some err)
      | Inr operator \<Rightarrow>
     (case GetLocalSite operator of
        Inl err \<Rightarrow> trace_Wrap (Some err)
      | Inr cluster \<Rightarrow>
     (case GetClusterConfiguration operator (site_Key cluster) of
        Inl err \<Rightarrow> trace_Wrap (Some err)
      | Inr existing \<Rightarrow>
     (case validate_ClusterConfiguration d existing update of
        Some err \<Rightarrow> trace_Wrap (Some err)
      | None \<Rightarrow>
     (case findLocalServer d (Servers cluster) of
        Inl err \<Rightarrow>
          Some (Error NotFound
            (''unable to find local node among cluster state servers: '' @
             Sprint_Servers d (Servers cluster)))
      | Inr server \<Rightarrow>
     (case (if ServiceCIDR (GetGlobalConfig update) \<noteq> []
            then NetworkOverlap (cidr_contains d) (AdvertiseIP server)
                   (ServiceCIDR (GetGlobalConfig update))
                   (serviceCIDR_message (AdvertiseIP server) (ServiceCIDR (GetGlobalConfig update)))
            else None) of
        Some err \<Rightarrow> trace_Wrap (Some err)
      | None \<Rightarrow>
     (case (if PodCIDR (GetGlobalConfig update) \<noteq> []
            then NetworkOverlap (cidr_contains d) (AdvertiseIP server)
                   (PodCIDR (GetGlobalConfig update))
                   (podCIDR_message (AdvertiseIP server) (PodCIDR (GetGlobalConfig update)))
            else None) of
        Some err \<Rightarrow> trace_Wrap (Some err)
      | None \<Rightarrow> None)))))))"

subsection \<open>The initializer of the flavor\<close>

definition validatePreconditions :: "configInitializer \<Rightarrow> LocalEnvironment \<Rightarrow> Operator \<Rightarrow> Site \<Rightarrow> error option" where
  "validatePreconditions r localEnv operator site = None"

definition newOperation_hint :: string where
  "newOperation_hint =
     ''cluster operator does not implement the API required for updating configuration. '' @
     ''Please make sure you're running the command on a compatible cluster.''"

definition newOperation :: "configInitializer \<Rightarrow> Operator \<Rightarrow> Site \<Rightarrow> error + SiteOperationKey" where
  "newOperation r operator cluster =
     (case CreateUpdateConfigOperation operator
             \<lparr>ClusterKey = site_Key cluster, Config = resource r\<rparr> of
        Inl err \<Rightarrow>
          (if IsNotFound (Some err) then Inl (Error NotImplemented newOperation_hint)
           else Inl (TraceErr [] err))
      | Inr key \<Rightarrow> Inr key)"

subsection \<open>updateConfig\<close>

definition newConfigUpdater :: "Collaborators \<Rightarrow> ClusterConfig \<Rightarrow> cli_action list \<Rightarrow> (error + Updater) \<times> cli_action list" where
  "newConfigUpdater d conf tr =
     (case Marshal d conf of
        Inl err \<Rightarrow> (Inl (TraceErr [] err), tr)
      | Inr configBytes \<Rightarrow>
          (let init = \<lparr>resource = configBytes, initializer_config = conf\<rparr>
           in (newUpdater d init, tr @ [NewUpdaterCall init])))"

definition updateConfig :: "Collaborators \<Rightarrow> LocalEnvironment \<Rightarrow> ClusterConfig \<Rightarrow> bool \<Rightarrow> bool \<Rightarrow> cli_action list \<Rightarrow> error option \<times> cli_action list" where
  "updateConfig d localEnv conf manual confirmed tr =
     (case validateClusterConfig d localEnv conf of
        Some err \<Rightarrow> (trace_Wrap (Some err), tr)
      | None \<Rightarrow>
          (case (if \<not> confirmed
                 then (let tr1 = tr @ [Println (if manual then updateConfigBannerManual
                                                else updateConfigBanner)] @ [ConfirmPrompt]
                       in case confirm d of
                            Inl err \<Rightarrow> Inl (trace_Wrap (Some err), tr1)
                          | Inr resp \<Rightarrow>
                              if \<not> resp
                              then Inl (None, tr1 @ [Println ''Action cancelled by user.''])
                              else Inr tr1)
                 else Inr tr) of
             Inl returned \<Rightarrow> returned
           | Inr tr2 \<Rightarrow>
               (case newConfigUpdater d conf tr2 of
                  (Inl err, tr3) \<Rightarrow> (trace_Wrap (Some err), tr3)
                | (Inr updater, tr3) \<Rightarrow>
                    if \<not> manual
                    then (trace_Wrap (updater_Run updater), tr3 @ [UpdaterRun] @ [UpdaterClose])
                    else (None,
                          tr3 @ [Println updateConfigManualOperationBanner] @ [UpdaterClose]))))"

section \<open>Auxiliary definitions for the properties\<close>

text \<open>
  What the handlers \<open>cs\<close> return when they are called one after the other from the
  trace \<open>tr\<close>, and the calls that this adds to the trace.
\<close>

fun stop_results :: "Stopper list \<Rightarrow> trace \<Rightarrow> error option list" where
  "stop_results [] tr = []"
| "stop_results (c # cs) tr = Stop c tr # stop_results cs (tr @ [StopperStop (stopper_name c)])"

definition stop_calls :: "Stopper list \<Rightarrow> trace" where
  "stop_calls cs = map (\<lambda>c. StopperStop (stopper_name c)) cs"

text \<open>The errors among the results: those that are not \<open>nil\<close>, in order.\<close>

definition failures :: "error option list \<Rightarrow> error list" where
  "failures rs = List.map_filter id rs"

subsection \<open>Concrete installers\<close>

definition ex_machine :: FSM where
  "ex_machine = \<lparr>ExecutePlan = None, Complete = (\<lambda>err. None)\<rparr>"

definition ex_config :: RuntimeConfig where
  "ex_config =
     \<lparr>initOperationPlan = None,
      NewFSM = (\<lambda>k. Inr ex_machine),
      Process_Wait = None,
      StopAgents = (\<lambda>k t. None),
      os_Open = None,
      Operator_StreamOperationLogs = (\<lambda>k. None),
      localenv_ClusterOperator = None\<rparr>"

definition ex_installer :: Installer where
  "ex_installer = \<lparr>config = ex_config, stoppers = [], aborters = [], agent = Some PeerServer\<rparr>"

definition ex_first :: Stopper where
  "ex_first = \<lparr>stopper_name = ''first'', Stop = (\<lambda>t. Some (Error Generic ''first failed''))\<rparr>"

definition ex_second :: Stopper where
  "ex_second = \<lparr>stopper_name = ''second'', Stop = (\<lambda>t. None)\<rparr>"

definition ex_third :: Stopper where
  "ex_third = \<lparr>stopper_name = ''third'', Stop = (\<lambda>t. Some (Error Generic ''third failed''))\<rparr>"

text \<open>
  The invariant of the token while no context is cancelled: the buffer of \<open>executeSema\<close>
  holds one value for each call that is between \<open>waitForExecuteToken\<close> and
  \<open>releaseExecuteToken\<close>, and there is at most one such call.
\<close>

definition token_inv :: "ExecuteState \<Rightarrow> bool" where
  "token_inv s =
     (executeSema s = inside s \<and> inside s \<le> 1 \<and> list_all (\<lambda>c. \<not> ctx_done c) (calls s))"

text \<open>
  The events of \<open>Run\<close> as the specification words them: the server has terminated, the
  local agent has terminated with an error, or the done channel is closed.
\<close>

definition Run_event_as_stated :: "RunChannels \<Rightarrow> bool" where
  "Run_event_as_stated ch =
     (errC ch \<noteq> None \<or>
      (case agentErrC ch of None \<Rightarrow> False | Some None \<Rightarrow> False | Some (Some e) \<Rightarrow> True) \<or>
      doneC_closed ch)"

text \<open>A plan that already exists when the operation is executed.\<close>

definition ex_key :: SiteOperationKey where
  "ex_key = SiteOperationKey ''system'' ''example.com'' ''op-1''"

definition ex_installer_plan_exists :: Installer where
  "ex_installer_plan_exists =
     ex_installer\<lparr>config := ex_config\<lparr>initOperationPlan :=
       Some (TraceErr [] (Error AlreadyExists ''operation plan already exists''))\<rparr>\<rparr>"

definition ex_installer_init_fails :: Installer where
  "ex_installer_init_fails =
     ex_installer\<lparr>config := ex_config\<lparr>initOperationPlan :=
       Some (Error Generic ''backend unavailable'')\<rparr>\<rparr>"

text \<open>The plan exists already, and the machine cannot be built.\<close>

definition ex_installer_plan_exists_no_machine :: Installer where
  "ex_installer_plan_exists_no_machine =
     ex_installer\<lparr>config := ex_config\<lparr>initOperationPlan :=
         Some (TraceErr [] (Error AlreadyExists ''operation plan already exists'')),
       NewFSM := (\<lambda>k. Inl (Error Generic ''failed to load the plan''))\<rparr>\<rparr>"

text \<open>A machine whose plan fails and whose completion fails as well.\<close>

definition ex_machine_failing :: FSM where
  "ex_machine_failing =
     \<lparr>ExecutePlan = Some (Error Generic ''phase failed''),
      Complete = (\<lambda>err. Some (Error Generic ''complete failed''))\<rparr>"

definition ex_installer_failing :: Installer where
  "ex_installer_failing =
     ex_installer\<lparr>config := ex_config\<lparr>NewFSM := (\<lambda>k. Inr ex_machine_failing),
       os_Open := Some (Error Generic ''no log file''),
       Process_Wait := Some (Error Generic ''process exited'')\<rparr>\<rparr>"

definition ex_operation :: SiteOperation where
  "ex_operation = \<lparr>ID = ''op-1'', Key = ex_key\<rparr>"

subsection \<open>A concrete cluster\<close>

definition ex_server :: Server where
  "ex_server = \<lparr>AdvertiseIP = ''10.0.0.5'', Hostname = ''node-1''\<rparr>"

definition ex_site :: Site where
  "ex_site = \<lparr>site_Key = SiteKey ''system'' ''example.com'', Servers = [ex_server]\<rparr>"

definition ex_existing :: ClusterConfig where
  "ex_existing =
     \<lparr>GetGlobalConfig = \<lparr>ServiceCIDR = ''10.100.0.0/16'', PodCIDR = ''10.244.0.0/16''\<rparr>\<rparr>"

definition ex_operator :: Operator where
  "ex_operator =
     \<lparr>GetLocalSite = Inr ex_site,
      GetClusterConfiguration = (\<lambda>k. Inr ex_existing),
      CreateUpdateConfigOperation = (\<lambda>req. Inr ex_key)\<rparr>"

definition ex_localEnv :: LocalEnvironment where
  "ex_localEnv = \<lparr>SiteOperator = Inr ex_operator\<rparr>"

definition ex_updater :: Updater where
  "ex_updater = \<lparr>updater_Run = None\<rparr>"

text \<open>
  Collaborators that accept every update, find the first server of the cluster state as
  the local node, and know one network: \<open>10.0.0.0/8\<close>, which contains the addresses
  that start with \<open>10.\<close>. The user answers yes.
\<close>

definition ex_collaborators :: Collaborators where
  "ex_collaborators =
     \<lparr>validate_ClusterConfiguration = (\<lambda>existing update. None),
      findLocalServer =
        (\<lambda>servers. case servers of
                      [] \<Rightarrow> Inl (Error NotFound ''no server'')
                    | server # rest \<Rightarrow> Inr server),
      Sprint_Servers = (\<lambda>servers. concat (map AdvertiseIP servers)),
      cidr_contains = (\<lambda>cidr ip. cidr = ''10.0.0.0/8'' \<and> take 3 ip = ''10.''),
      confirm = Inr True,
      Marshal = (\<lambda>conf. Inr ''spec''),
      newUpdater = (\<lambda>init. Inr ex_updater)\<rparr>"

text \<open>The same, with a \<open>validate.ClusterConfiguration\<close> that rejects the update.\<close>

definition ex_collaborators_strict :: Collaborators where
  "ex_collaborators_strict =
     ex_collaborators\<lparr>validate_ClusterConfiguration :=
       (\<lambda>existing update. Some (Error BadParameter ''invalid configuration update''))\<rparr>"

text \<open>The same as the first, with a \<open>newUpdater\<close> that fails.\<close>

definition ex_collaborators_no_updater :: Collaborators where
  "ex_collaborators_no_updater =
     ex_collaborators\<lparr>newUpdater :=
       (\<lambda>init. Inl (Error Generic ''failed to create the operation''))\<rparr>"

definition ex_update_service_conflict :: ClusterConfig where
  "ex_update_service_conflict =
     \<lparr>GetGlobalConfig = \<lparr>ServiceCIDR = ''10.0.0.0/8'', PodCIDR = []\<rparr>\<rparr>"

definition ex_update_pod_conflict :: ClusterConfig where
  "ex_update_pod_conflict =
     \<lparr>GetGlobalConfig = \<lparr>ServiceCIDR = ''172.16.0.0/16'', PodCIDR = ''10.0.0.0/8''\<rparr>\<rparr>"

text \<open>The empty update, as \<open>resetConfig\<close> passes it.\<close>

definition ex_update_ok :: ClusterConfig where
  "ex_update_ok = \<lparr>GetGlobalConfig = \<lparr>ServiceCIDR = [], PodCIDR = []\<rparr>\<rparr>"

text \<open>Operators whose \<open>CreateUpdateConfigOperation\<close> fails.\<close>

definition ex_operator_old :: Operator where
  "ex_operator_old =
     ex_operator\<lparr>CreateUpdateConfigOperation :=
       (\<lambda>req. Inl (TraceErr [] (Error NotFound ''no such endpoint'')))\<rparr>"

definition ex_operator_denied :: Operator where
  "ex_operator_denied =
     ex_operator\<lparr>CreateUpdateConfigOperation :=
       (\<lambda>req. Inl (Error BadParameter ''operation in progress''))\<rparr>"

definition ex_initializer :: configInitializer where
  "ex_initializer = \<lparr>resource = ''spec'', initializer_config = ex_update_ok\<rparr>"

section \<open>The teardown registries and the stop and abort paths\<close>

lemma failures_simps:
  "failures [] = []"
  "failures (None # rs) = failures rs"
  "failures (Some e # rs) = e # failures rs"
  by (simp_all add: failures_def List.map_filter_simps)

lemma stopAll_eq:
  "stopAll cs errors tr = (errors @ failures (stop_results cs tr), tr @ stop_calls cs)"
proof (induction cs arbitrary: errors tr)
  case Nil
  show ?case by (simp add: stop_calls_def failures_simps)
next
  case (Cons c cs)
  show ?case
  proof (cases "Stop c tr")
    case None
    then show ?thesis using Cons.IH by (simp add: stop_calls_def failures_simps)
  next
    case (Some err)
    then show ?thesis using Cons.IH by (simp add: stop_calls_def failures_simps)
  qed
qed

lemma stopStoppers_eq:
  "stopStoppers i tr =
     (NewAggregate (failures (stop_results (stoppers i) tr)), tr @ stop_calls (stoppers i))"
  by (simp add: stopStoppers_def stopAll_eq)

lemma abortWithContext_eq:
  "abortWithContext i tr =
     (NewAggregate (failures (stop_results (aborters i) (tr @ [CancelContext]))),
      tr @ [CancelContext] @ stop_calls (aborters i) @ [ProcessShutdown, ServerStop])"
  by (simp add: abortWithContext_def stopAll_eq)

lemma stopWithContext_eq:
  "stopWithContext i tr =
     (trace_Wrap (NewAggregate (failures (stop_results (stoppers i)
        (tr @ [CancelContext] @ (case agent i of None \<Rightarrow> [] | Some a \<Rightarrow> [AgentStop]))))),
      tr @ [CancelContext] @ (case agent i of None \<Rightarrow> [] | Some a \<Rightarrow> [AgentStop]) @
        stop_calls (stoppers i) @ [ProcessShutdown, ServerStop])"
  by (cases "agent i") (simp_all add: stopWithContext_def stopStoppers_eq)

lemma stoppers_registered:
  "stoppers (foldl addStopper i hs) = stoppers i @ hs"
  by (induction hs arbitrary: i) (simp_all add: addStopper_def)

lemma aborters_registered:
  "aborters (foldl addAborter i hs) = aborters i @ hs"
  by (induction hs arbitrary: i) (simp_all add: addAborter_def)

text \<open>
  C3. The stop path performs, in this order: cancel the internal context, stop the
  local agent (the installer has one only when it was configured to use the local host
  as a node), run the registered stoppers, shut down the upstream process, stop the
  controller server. The abort path performs, in this order: cancel the internal
  context, run the registered aborters, shut down the upstream process, stop the
  controller server. Nothing else is done in between, whatever the handlers return.
\<close>

theorem stop_and_abort_paths_in_order:
  "snd (stopWithContext i tr) =
     tr @ [CancelContext] @ (case agent i of None \<Rightarrow> [] | Some a \<Rightarrow> [AgentStop]) @
       stop_calls (stoppers i) @ [ProcessShutdown, ServerStop] \<and>
   snd (abortWithContext i tr) =
     tr @ [CancelContext] @ stop_calls (aborters i) @ [ProcessShutdown, ServerStop]"
  by (simp add: stopWithContext_eq abortWithContext_eq)

theorem stop_and_abort_paths_in_order_witness:
  "snd (stopWithContext (ex_installer\<lparr>stoppers := [ex_first, ex_second]\<rparr>) []) =
     [CancelContext, AgentStop, StopperStop ''first'', StopperStop ''second'',
      ProcessShutdown, ServerStop] \<and>
   snd (abortWithContext (ex_installer\<lparr>aborters := [ex_third]\<rparr>) []) =
     [CancelContext, StopperStop ''third'', ProcessShutdown, ServerStop]"
  using stop_and_abort_paths_in_order [of "ex_installer\<lparr>stoppers := [ex_first, ex_second]\<rparr>" "[]"]
    stop_and_abort_paths_in_order [of "ex_installer\<lparr>aborters := [ex_third]\<rparr>" "[]"]
  by (simp add: ex_installer_def ex_first_def ex_second_def ex_third_def stop_calls_def)

text \<open>
  C4, as the code has it. The handlers of a registry are invoked in the order of their
  registration, first registered first (not in reverse): \<open>addStopper\<close> and
  \<open>addAborter\<close> append, and the loops range over the slice from its start. Every
  handler is invoked, whatever the earlier ones return, and the result is the aggregate
  of all the errors returned (\<open>nil\<close> when there is none). This holds for the stopper
  registry (\<open>stopStoppers\<close>) and for the aborter registry (the loop of
  \<open>abortWithContext\<close>, between cancelling the context and shutting down).
\<close>

theorem registries_run_in_registration_order:
  "stopStoppers (foldl addStopper (i\<lparr>stoppers := []\<rparr>) hs) tr =
     (NewAggregate (failures (stop_results hs tr)), tr @ stop_calls hs) \<and>
   abortWithContext (foldl addAborter (i\<lparr>aborters := []\<rparr>) hs) tr =
     (NewAggregate (failures (stop_results hs (tr @ [CancelContext]))),
      tr @ [CancelContext] @ stop_calls hs @ [ProcessShutdown, ServerStop])"
  by (simp add: stopStoppers_eq abortWithContext_eq stoppers_registered aborters_registered)

theorem registries_run_in_registration_order_witness:
  "stopStoppers (foldl addStopper (ex_installer\<lparr>stoppers := []\<rparr>) [ex_first, ex_second, ex_third]) [] =
     (Some (Aggregate [Error Generic ''first failed'', Error Generic ''third failed'']),
      [StopperStop ''first'', StopperStop ''second'', StopperStop ''third'']) \<and>
   abortWithContext (foldl addAborter (ex_installer\<lparr>aborters := []\<rparr>) [ex_first, ex_second, ex_third]) [] =
     (Some (Aggregate [Error Generic ''first failed'', Error Generic ''third failed'']),
      [CancelContext, StopperStop ''first'', StopperStop ''second'', StopperStop ''third'',
       ProcessShutdown, ServerStop])"
  using registries_run_in_registration_order
          [of ex_installer "[ex_first, ex_second, ex_third]" "[]"]
  by (simp add: ex_first_def ex_second_def ex_third_def stop_calls_def failures_simps
        NewAggregate_def)

text \<open>
  C4 as stated fails: with \<open>first\<close> registered before \<open>second\<close>, the stopper registry
  invokes \<open>first\<close> and then \<open>second\<close>, not \<open>second\<close> and then \<open>first\<close>.
\<close>

theorem registries_not_lifo:
  "snd (stopStoppers (addStopper (addStopper ex_installer ex_first) ex_second) []) =
     [StopperStop ''first'', StopperStop ''second''] \<and>
   snd (stopStoppers (addStopper (addStopper ex_installer ex_first) ex_second) []) \<noteq>
     [StopperStop ''second'', StopperStop ''first'']"
  by (simp add: stopStoppers_def addStopper_def ex_installer_def ex_first_def ex_second_def)

section \<open>Run\<close>

lemma Run_select_empty:
  "(Run_select ch = []) = (errC ch = None \<and> agentErrC ch = None \<and> \<not> doneC_closed ch)"
  by (simp add: Run_select_def split: option.splits)

text \<open>
  C2, as the code has it. \<open>Run\<close> returns exactly when one of three events has occurred:
  the server has terminated (its result is in \<open>errC\<close>), the agent's serve call has
  returned, with an error or with \<open>nil\<close> (its result is in \<open>agentErrC\<close>), or the done
  channel is closed. However it returns, the abort path has run when the returned error
  is abort-class, and the stop path otherwise.
\<close>

theorem Run_returns_on_event_then_aborts_or_stops:
  "(Run_returns IsAbortedErr i ch tr \<noteq> []) =
     (errC ch \<noteq> None \<or> agentErrC ch \<noteq> None \<or> doneC_closed ch) \<and>
   (\<forall>r \<in> set (Run_returns IsAbortedErr i ch tr).
      snd r = (if IsAbortedErr (fst r) then abort i tr else stop i tr))"
  by (auto simp add: Run_returns_def Run_select_empty Run_def Let_def)

theorem Run_returns_on_event_then_aborts_or_stops_witness:
  "Run_returns (has_kind Aborted) ex_installer
     \<lparr>errC = Some (Some (Error Aborted ''aborted'')), agentErrC = None, doneC_closed = True\<rparr> [] =
     [(Some (TraceErr [] (Error Aborted ''aborted'')),
       [CancelContext, ProcessShutdown, ServerStop]),
      (None, [CancelContext, AgentStop, ProcessShutdown, ServerStop])]"
  using Run_returns_on_event_then_aborts_or_stops [of "has_kind Aborted" ex_installer
    "\<lparr>errC = Some (Some (Error Aborted ''aborted'')), agentErrC = None, doneC_closed = True\<rparr>" "[]"]
  by (simp add: Run_returns_def Run_select_def Run_def has_kind_def abort_def
        abortWithContext_def stop_def stopWithContext_def stopStoppers_def ex_installer_def
        NewAggregate_def)

text \<open>
  C2 as stated fails: when the agent's serve call returns \<open>nil\<close>, none of the three
  events of the claim has occurred (the agent has not terminated with an error), and
  \<open>Run\<close> returns all the same, with \<open>nil\<close>, after the stop path.
\<close>

theorem Run_returns_when_agent_ends_without_error:
  "Run_returns (has_kind Aborted) ex_installer
     \<lparr>errC = None, agentErrC = Some None, doneC_closed = False\<rparr> [] =
     [(None, [CancelContext, AgentStop, ProcessShutdown, ServerStop])] \<and>
   \<not> Run_event_as_stated \<lparr>errC = None, agentErrC = Some None, doneC_closed = False\<rparr>"
  by (simp add: Run_returns_def Run_select_def Run_def has_kind_def Run_event_as_stated_def
        stop_def stopWithContext_def stopStoppers_def ex_installer_def NewAggregate_def)

section \<open>ExecuteOperation and the completion of the operation\<close>

lemma ExecuteOperation_init_failed:
  assumes "initOperationPlan (config i) \<noteq> None"
    and "\<not> IsAlreadyExists (initOperationPlan (config i))"
  shows "ExecuteOperation i operationKey tr =
           (trace_Wrap (initOperationPlan (config i)), tr @ [InitOperationPlan])"
  using assms by (simp add: ExecuteOperation_def)

lemma ExecuteOperation_no_machine:
  assumes "initOperationPlan (config i) = None \<or> IsAlreadyExists (initOperationPlan (config i))"
    and "NewFSM (config i) operationKey = Inl err"
  shows "ExecuteOperation i operationKey tr =
           (Some (TraceErr [] err), tr @ [InitOperationPlan, NewFSMCall operationKey])"
  using assms by (auto simp add: ExecuteOperation_def)

lemma ExecuteOperation_machine:
  assumes "initOperationPlan (config i) = None \<or> IsAlreadyExists (initOperationPlan (config i))"
    and "NewFSM (config i) operationKey = Inr machine"
  shows "ExecuteOperation i operationKey tr =
           (trace_Wrap (if ExecutePlan machine = None
                        then Complete machine (ExecutePlan machine)
                        else ExecutePlan machine),
            tr @ [InitOperationPlan, NewFSMCall operationKey, ExecutePlanCall] @
              (case ExecutePlan machine of
                 None \<Rightarrow> []
               | Some e \<Rightarrow> [Warn ''Failed to execute operation plan.'' e]) @
              [CompleteCall (ExecutePlan machine)] @
              (case Complete machine (ExecutePlan machine) of
                 None \<Rightarrow> []
               | Some ce \<Rightarrow> [Warn ''Failed to complete operation.'' ce]))"
  using assms
  by (auto simp add: ExecuteOperation_def Let_def split: option.splits)

text \<open>
  C8, as the code has it. \<open>ExecuteOperation\<close> treats an already-exists result of the
  initial plan creation as success: whenever \<open>initOperationPlan\<close> returns \<open>nil\<close> or an
  already-exists error, it goes on to build the machine (\<open>NewFSM\<close> is called next), and
  all it does and returns is what it does and returns when \<open>initOperationPlan\<close> returns
  \<open>nil\<close>. When \<open>NewFSM\<close> builds the machine, the plan is executed and the operation
  completed. It returns early in two cases only: on any other error of
  \<open>initOperationPlan\<close>, which it returns at once, wrapped, without calling \<open>NewFSM\<close>;
  and on an error of \<open>NewFSM\<close>, which it returns wrapped without executing the plan.
\<close>

theorem ExecuteOperation_already_exists_is_success:
  "(initOperationPlan (config i) = None \<or> IsAlreadyExists (initOperationPlan (config i)) \<longrightarrow>
      ExecuteOperation i operationKey tr =
        ExecuteOperation (i\<lparr>config := (config i)\<lparr>initOperationPlan := None\<rparr>\<rparr>) operationKey tr \<and>
      (\<exists>rest. snd (ExecuteOperation i operationKey tr) =
         tr @ [InitOperationPlan, NewFSMCall operationKey] @ rest) \<and>
      (\<forall>machine. NewFSM (config i) operationKey = Inr machine \<longrightarrow>
         ExecuteOperation i operationKey tr =
           (trace_Wrap (if ExecutePlan machine = None
                        then Complete machine (ExecutePlan machine)
                        else ExecutePlan machine),
            tr @ [InitOperationPlan, NewFSMCall operationKey, ExecutePlanCall] @
              (case ExecutePlan machine of
                 None \<Rightarrow> []
               | Some e \<Rightarrow> [Warn ''Failed to execute operation plan.'' e]) @
              [CompleteCall (ExecutePlan machine)] @
              (case Complete machine (ExecutePlan machine) of
                 None \<Rightarrow> []
               | Some ce \<Rightarrow> [Warn ''Failed to complete operation.'' ce]))) \<and>
      (\<forall>err. NewFSM (config i) operationKey = Inl err \<longrightarrow>
         ExecuteOperation i operationKey tr =
           (Some (TraceErr [] err), tr @ [InitOperationPlan, NewFSMCall operationKey]))) \<and>
   (initOperationPlan (config i) \<noteq> None \<and> \<not> IsAlreadyExists (initOperationPlan (config i)) \<longrightarrow>
      ExecuteOperation i operationKey tr =
        (trace_Wrap (initOperationPlan (config i)), tr @ [InitOperationPlan]))"
proof (intro conjI impI allI)
  assume ok: "initOperationPlan (config i) = None \<or> IsAlreadyExists (initOperationPlan (config i))"
  let ?i' = "i\<lparr>config := (config i)\<lparr>initOperationPlan := None\<rparr>\<rparr>"
  have ok': "initOperationPlan (config ?i') = None \<or> IsAlreadyExists (initOperationPlan (config ?i'))"
    by simp
  show "ExecuteOperation i operationKey tr = ExecuteOperation ?i' operationKey tr"
  proof (cases "NewFSM (config i) operationKey")
    case (Inl err)
    then have "NewFSM (config ?i') operationKey = Inl err" by simp
    then show ?thesis
      using ExecuteOperation_no_machine [OF ok Inl] ExecuteOperation_no_machine [OF ok']
      by simp
  next
    case (Inr machine)
    then have "NewFSM (config ?i') operationKey = Inr machine" by simp
    then show ?thesis
      using ExecuteOperation_machine [OF ok Inr] ExecuteOperation_machine [OF ok']
      by simp
  qed
  show "\<exists>rest. snd (ExecuteOperation i operationKey tr) =
          tr @ [InitOperationPlan, NewFSMCall operationKey] @ rest"
  proof (cases "NewFSM (config i) operationKey")
    case (Inl err)
    show ?thesis using ExecuteOperation_no_machine [OF ok Inl] by simp
  next
    case (Inr machine)
    show ?thesis using ExecuteOperation_machine [OF ok Inr] by simp
  qed
  {
    fix machine
    assume "NewFSM (config i) operationKey = Inr machine"
    then show "ExecuteOperation i operationKey tr =
           (trace_Wrap (if ExecutePlan machine = None
                        then Complete machine (ExecutePlan machine)
                        else ExecutePlan machine),
            tr @ [InitOperationPlan, NewFSMCall operationKey, ExecutePlanCall] @
              (case ExecutePlan machine of
                 None \<Rightarrow> []
               | Some e \<Rightarrow> [Warn ''Failed to execute operation plan.'' e]) @
              [CompleteCall (ExecutePlan machine)] @
              (case Complete machine (ExecutePlan machine) of
                 None \<Rightarrow> []
               | Some ce \<Rightarrow> [Warn ''Failed to complete operation.'' ce]))"
      by (rule ExecuteOperation_machine [OF ok])
  }
  {
    fix err
    assume "NewFSM (config i) operationKey = Inl err"
    then show "ExecuteOperation i operationKey tr =
           (Some (TraceErr [] err), tr @ [InitOperationPlan, NewFSMCall operationKey])"
      by (rule ExecuteOperation_no_machine [OF ok])
  }
next
  assume "initOperationPlan (config i) \<noteq> None \<and> \<not> IsAlreadyExists (initOperationPlan (config i))"
  then show "ExecuteOperation i operationKey tr =
        (trace_Wrap (initOperationPlan (config i)), tr @ [InitOperationPlan])"
    using ExecuteOperation_init_failed by simp
qed

theorem ExecuteOperation_already_exists_is_success_witness:
  "IsAlreadyExists (initOperationPlan (config ex_installer_plan_exists)) \<and>
   NewFSM (config ex_installer_plan_exists) ex_key = Inr ex_machine \<and>
   ExecuteOperation ex_installer_plan_exists ex_key [] =
     (None, [InitOperationPlan, NewFSMCall ex_key, ExecutePlanCall, CompleteCall None]) \<and>
   ExecuteOperation ex_installer_plan_exists ex_key [] = ExecuteOperation ex_installer ex_key [] \<and>
   IsAlreadyExists (initOperationPlan (config ex_installer_plan_exists_no_machine)) \<and>
   NewFSM (config ex_installer_plan_exists_no_machine) ex_key =
     Inl (Error Generic ''failed to load the plan'') \<and>
   ExecuteOperation ex_installer_plan_exists_no_machine ex_key [] =
     (Some (TraceErr [] (Error Generic ''failed to load the plan'')),
      [InitOperationPlan, NewFSMCall ex_key]) \<and>
   initOperationPlan (config ex_installer_init_fails) \<noteq> None \<and>
   \<not> IsAlreadyExists (initOperationPlan (config ex_installer_init_fails)) \<and>
   ExecuteOperation ex_installer_init_fails ex_key [] =
     (Some (TraceErr [] (Error Generic ''backend unavailable'')), [InitOperationPlan])"
proof -
  have ae: "IsAlreadyExists (initOperationPlan (config ex_installer_plan_exists))"
    by (simp add: ex_installer_plan_exists_def ex_installer_def IsAlreadyExists_def has_kind_def)
  have m: "NewFSM (config ex_installer_plan_exists) ex_key = Inr ex_machine"
    by (simp add: ex_installer_plan_exists_def ex_installer_def ex_config_def)
  have ae2: "IsAlreadyExists (initOperationPlan (config ex_installer_plan_exists_no_machine))"
    by (simp add: ex_installer_plan_exists_no_machine_def ex_installer_def IsAlreadyExists_def
          has_kind_def)
  have nm: "NewFSM (config ex_installer_plan_exists_no_machine) ex_key =
      Inl (Error Generic ''failed to load the plan'')"
    by (simp add: ex_installer_plan_exists_no_machine_def ex_installer_def)
  have other: "initOperationPlan (config ex_installer_init_fails) \<noteq> None \<and>
      \<not> IsAlreadyExists (initOperationPlan (config ex_installer_init_fails))"
    by (simp add: ex_installer_init_fails_def ex_installer_def IsAlreadyExists_def has_kind_def)
  have same: "ex_installer_plan_exists\<lparr>config := (config ex_installer_plan_exists)\<lparr>initOperationPlan := None\<rparr>\<rparr> =
      ex_installer"
    by (simp add: ex_installer_plan_exists_def ex_installer_def ex_config_def)
  have 1: "ExecuteOperation ex_installer_plan_exists ex_key [] = ExecuteOperation ex_installer ex_key []"
    using ExecuteOperation_already_exists_is_success [of ex_installer_plan_exists ex_key "[]"]
      ae same by simp
  have "ExecuteOperation ex_installer_plan_exists ex_key [] =
      (trace_Wrap (if ExecutePlan ex_machine = None
                   then Complete ex_machine (ExecutePlan ex_machine)
                   else ExecutePlan ex_machine),
       [] @ [InitOperationPlan, NewFSMCall ex_key, ExecutePlanCall] @
         (case ExecutePlan ex_machine of
            None \<Rightarrow> []
          | Some e \<Rightarrow> [Warn ''Failed to execute operation plan.'' e]) @
         [CompleteCall (ExecutePlan ex_machine)] @
         (case Complete ex_machine (ExecutePlan ex_machine) of
            None \<Rightarrow> []
          | Some ce \<Rightarrow> [Warn ''Failed to complete operation.'' ce]))"
    using ExecuteOperation_already_exists_is_success [of ex_installer_plan_exists ex_key "[]"]
      ae m by blast
  then have 2: "ExecuteOperation ex_installer_plan_exists ex_key [] =
      (None, [InitOperationPlan, NewFSMCall ex_key, ExecutePlanCall, CompleteCall None])"
    by (simp add: ex_machine_def)
  have 3: "ExecuteOperation ex_installer_plan_exists_no_machine ex_key [] =
      (Some (TraceErr [] (Error Generic ''failed to load the plan'')),
       [] @ [InitOperationPlan, NewFSMCall ex_key])"
    using ExecuteOperation_already_exists_is_success
            [of ex_installer_plan_exists_no_machine ex_key "[]"] ae2 nm
    by blast
  have 4: "ExecuteOperation ex_installer_init_fails ex_key [] =
      (trace_Wrap (initOperationPlan (config ex_installer_init_fails)), [] @ [InitOperationPlan])"
    using ExecuteOperation_already_exists_is_success [of ex_installer_init_fails ex_key "[]"]
      other by blast
  have 5: "trace_Wrap (initOperationPlan (config ex_installer_init_fails)) =
      Some (TraceErr [] (Error Generic ''backend unavailable''))"
    by (simp add: ex_installer_init_fails_def ex_installer_def)
  show ?thesis using ae m ae2 nm other 1 2 3 4 5 by simp
qed

text \<open>
  C8 as stated fails: when \<open>initOperationPlan\<close> returns an already-exists error and
  \<open>NewFSM\<close> fails, \<open>ExecuteOperation\<close> returns the error of \<open>NewFSM\<close> right after the call
  of \<open>NewFSM\<close>. The plan is not executed, and the early return is not on an error of the
  initialization.
\<close>

theorem ExecuteOperation_returns_early_without_machine:
  "IsAlreadyExists (initOperationPlan (config ex_installer_plan_exists_no_machine)) \<and>
   ExecuteOperation ex_installer_plan_exists_no_machine ex_key [] =
     (Some (TraceErr [] (Error Generic ''failed to load the plan'')),
      [InitOperationPlan, NewFSMCall ex_key]) \<and>
   ExecutePlanCall \<notin> set (snd (ExecuteOperation ex_installer_plan_exists_no_machine ex_key []))"
  by (simp add: ExecuteOperation_def ex_installer_plan_exists_no_machine_def ex_installer_def
        IsAlreadyExists_def has_kind_def)

text \<open>
  C5, as the code has it. In \<open>ExecuteOperation\<close>, once the machine is built, the error
  returned is the error of \<open>ExecutePlan\<close> (wrapped) whenever \<open>ExecutePlan\<close> fails,
  whether \<open>Complete\<close> fails as well or not; the error of \<open>Complete\<close> is returned only
  when \<open>ExecutePlan\<close> succeeded. An error of \<open>Complete\<close> is always logged as a warning,
  the last thing \<open>ExecuteOperation\<close> does. \<open>CompleteOperationAndWait\<close> does aggregate:
  it returns the aggregate of the error of \<open>completeOperation\<close> and of the error of
  \<open>Process.Wait\<close>.
\<close>

theorem ExecuteOperation_returns_plan_error_first:
  "((initOperationPlan (config i) = None \<or> IsAlreadyExists (initOperationPlan (config i))) \<and>
    NewFSM (config i) operationKey = Inr machine \<longrightarrow>
      fst (ExecuteOperation i operationKey tr) =
        trace_Wrap (if ExecutePlan machine = None then Complete machine None
                    else ExecutePlan machine) \<and>
      (\<forall>ce. Complete machine (ExecutePlan machine) = Some ce \<longrightarrow>
         last (snd (ExecuteOperation i operationKey tr)) =
           Warn ''Failed to complete operation.'' ce)) \<and>
   fst (CompleteOperationAndWait i operation tr) =
     NewAggregate (failures
       [fst (completeOperation i operation StatusCompletedPending tr),
        trace_Wrap (Process_Wait (config i))])"
proof (intro conjI impI allI)
  assume a: "(initOperationPlan (config i) = None \<or> IsAlreadyExists (initOperationPlan (config i))) \<and>
    NewFSM (config i) operationKey = Inr machine"
  then have eq: "ExecuteOperation i operationKey tr =
           (trace_Wrap (if ExecutePlan machine = None
                        then Complete machine (ExecutePlan machine)
                        else ExecutePlan machine),
            tr @ [InitOperationPlan, NewFSMCall operationKey, ExecutePlanCall] @
              (case ExecutePlan machine of
                 None \<Rightarrow> []
               | Some e \<Rightarrow> [Warn ''Failed to execute operation plan.'' e]) @
              [CompleteCall (ExecutePlan machine)] @
              (case Complete machine (ExecutePlan machine) of
                 None \<Rightarrow> []
               | Some ce \<Rightarrow> [Warn ''Failed to complete operation.'' ce]))"
    using ExecuteOperation_machine by blast
  show "fst (ExecuteOperation i operationKey tr) =
        trace_Wrap (if ExecutePlan machine = None then Complete machine None
                    else ExecutePlan machine)"
    by (simp add: eq)
  fix ce
  assume "Complete machine (ExecutePlan machine) = Some ce"
  then show "last (snd (ExecuteOperation i operationKey tr)) =
           Warn ''Failed to complete operation.'' ce"
    by (simp add: eq)
next
  obtain err1 i' tr1 where c: "completeOperation i operation StatusCompletedPending tr = (err1, i', tr1)"
    by (cases "completeOperation i operation StatusCompletedPending tr") auto
  have i': "config i' = config i"
    using c by (auto simp add: completeOperation_def addStopper_def Let_def split: prod.splits)
  show "fst (CompleteOperationAndWait i operation tr) =
     NewAggregate (failures
       [fst (completeOperation i operation StatusCompletedPending tr),
        trace_Wrap (Process_Wait (config i))])"
    using c i'
    by (cases err1; cases "Process_Wait (config i)")
       (simp_all add: CompleteOperationAndWait_def wait_def failures_simps split: prod.splits)
qed

theorem ExecuteOperation_returns_plan_error_first_witness:
  "NewFSM (config ex_installer_failing) ex_key = Inr ex_machine_failing \<and>
   initOperationPlan (config ex_installer_failing) = None \<and>
   fst (ExecuteOperation ex_installer_failing ex_key []) =
     Some (TraceErr [] (Error Generic ''phase failed'')) \<and>
   last (snd (ExecuteOperation ex_installer_failing ex_key [])) =
     Warn ''Failed to complete operation.'' (Error Generic ''complete failed'') \<and>
   fst (CompleteOperationAndWait ex_installer_failing ex_operation []) =
     Some (Aggregate [Aggregate [TraceErr [] (Error Generic ''no log file'')],
                      TraceErr [] (Error Generic ''process exited'')])"
proof -
  have h: "NewFSM (config ex_installer_failing) ex_key = Inr ex_machine_failing \<and>
      initOperationPlan (config ex_installer_failing) = None"
    by (simp add: ex_installer_failing_def ex_installer_def ex_config_def)
  have c: "Complete ex_machine_failing (ExecutePlan ex_machine_failing) =
      Some (Error Generic ''complete failed'')"
    by (simp add: ex_machine_failing_def)
  have co: "fst (completeOperation ex_installer_failing ex_operation StatusCompletedPending []) =
      Some (Aggregate [TraceErr [] (Error Generic ''no log file'')])"
    by (simp add: completeOperation_def uploadInstallLog_def emitAuditEvents_def
          ex_installer_failing_def ex_installer_def ex_config_def NewAggregate_def)
  have w: "trace_Wrap (Process_Wait (config ex_installer_failing)) =
      Some (TraceErr [] (Error Generic ''process exited''))"
    by (simp add: ex_installer_failing_def ex_installer_def ex_config_def)
  show ?thesis
    using ExecuteOperation_returns_plan_error_first
            [of ex_installer_failing ex_key ex_machine_failing "[]" ex_operation] h c co w
    by (simp add: ex_machine_failing_def failures_simps NewAggregate_def)
qed

text \<open>
  C5 as stated fails: when \<open>ExecutePlan\<close> fails and \<open>Complete\<close> fails as well,
  \<open>ExecuteOperation\<close> returns the error of \<open>ExecutePlan\<close>, which does not carry the error
  of \<open>Complete\<close>.
\<close>

theorem ExecuteOperation_drops_complete_error:
  "fst (ExecuteOperation ex_installer_failing ex_key []) =
     Some (TraceErr [] (Error Generic ''phase failed'')) \<and>
   \<not> carries (TraceErr [] (Error Generic ''phase failed'')) (Error Generic ''complete failed'')"
  by (simp add: ExecuteOperation_def ex_installer_failing_def ex_installer_def ex_config_def
        ex_machine_failing_def)

section \<open>The execution token\<close>

lemma count_update:
  "k < length xs \<Longrightarrow>
   length (filter P (xs[k := y])) + (if P (xs ! k) then 1 else 0) =
   length (filter P xs) + (if P y then 1 else 0)"
proof (induction xs arbitrary: k)
  case Nil
  then show ?case by simp
next
  case (Cons x xs)
  then show ?case by (cases k) auto
qed

lemma inside_move:
  "k < length (calls s) \<Longrightarrow>
   inside (move s k l) +
     (if loc (calls s ! k) = InPhaseWork \<or> loc (calls s ! k) = AtReleaseExecuteToken
      then 1 else 0) =
   inside s + (if l = InPhaseWork \<or> l = AtReleaseExecuteToken then 1 else 0)"
  using count_update [of k "calls s"
      "\<lambda>c. loc c = InPhaseWork \<or> loc c = AtReleaseExecuteToken" "(calls s ! k)\<lparr>loc := l\<rparr>"]
  by (simp add: inside_def move_def)

lemma ctx_move:
  "k < length (calls s) \<Longrightarrow> list_all (\<lambda>c. \<not> ctx_done c) (calls s) \<Longrightarrow>
   list_all (\<lambda>c. \<not> ctx_done c) (calls (move s k l))"
  by (auto simp add: move_def list_all_iff dest!: set_update_subset_insert [THEN subsetD])

lemma inside_executeSema [simp]: "inside (s\<lparr>executeSema := n\<rparr>) = inside s"
  by (simp add: inside_def)

lemma executeSema_move [simp]: "executeSema (move s k l) = executeSema s"
  by (simp add: move_def)

lemma token_inv_step:
  assumes "token_inv s" "\<not> is_cancel e" "execute_step e s = Some s'"
  shows "token_inv s'"
proof (cases e)
  case (SendToken k)
  then show ?thesis
    using assms inside_move [of k s InPhaseWork] ctx_move [of k s InPhaseWork]
    by (auto simp add: token_inv_def stands_def executeSema_cap_def split: if_splits)
next
  case (CtxDone k)
  then show ?thesis
    using assms by (auto simp add: token_inv_def stands_def list_all_length split: if_splits)
next
  case (PhaseWorkDone k)
  then show ?thesis
    using assms inside_move [of k s AtReleaseExecuteToken]
      ctx_move [of k s AtReleaseExecuteToken]
    by (auto simp add: token_inv_def stands_def split: if_splits)
next
  case (ReceiveToken k)
  then show ?thesis
    using assms inside_move [of k s Returned] ctx_move [of k s Returned]
    by (auto simp add: token_inv_def stands_def split: if_splits)
next
  case (CancelCtx k)
  then show ?thesis using assms by simp
qed

lemma token_inv_run:
  "token_inv s \<Longrightarrow> list_all (\<lambda>e. \<not> is_cancel e) es \<Longrightarrow> execute_run es s = Some s' \<Longrightarrow>
   token_inv s'"
proof (induction es arbitrary: s)
  case Nil
  then show ?case by simp
next
  case (Cons e es)
  then show ?case by (auto split: option.splits dest: token_inv_step)
qed

lemma token_inv_init: "token_inv (execute_init n)"
  by (simp add: token_inv_def execute_init_def inside_def list_all_iff)

lemma phase_workers_le_inside: "phase_workers s \<le> inside s"
proof -
  have "length (filter (\<lambda>c. loc c = InPhaseWork) xs) \<le>
      length (filter (\<lambda>c. loc c = InPhaseWork \<or> loc c = AtReleaseExecuteToken) xs)"
    for xs :: "ExecuteCall list"
    by (induction xs) auto
  then show ?thesis by (simp add: phase_workers_def inside_def)
qed

text \<open>
  As long as no context is cancelled the token does its work: however the calls of
  \<open>Execute\<close> interleave, at most one of them is in its phase work.
\<close>

lemma mutual_exclusion_without_cancellation:
  assumes "list_all (\<lambda>e. \<not> is_cancel e) es" "execute_run es (execute_init n) = Some s"
  shows "phase_workers s \<le> 1"
  using token_inv_run [OF token_inv_init assms] phase_workers_le_inside [of s]
  by (simp add: token_inv_def)

text \<open>
  C1 says that two concurrent calls of \<open>Execute\<close> never overlap their phase work, and that
  a waiter whose context is cancelled returns without acquiring the token. The code
  breaks this. \<open>waitForExecuteToken\<close> returns nothing, so \<open>Execute\<close> cannot tell a token
  from a cancelled context and carries on in both cases. Two calls are made; the
  first acquires the token and is in its phase work; the context of the second is
  cancelled while it waits. The second then enters its phase work as well: both are in
  their phase work, with one value in the buffer. When the second is done, its deferred
  \<open>releaseExecuteToken\<close> takes the token of the first out of the buffer, which is empty
  while the first is still in its phase work.
\<close>

theorem Execute_overlaps_after_cancelled_wait:
  "execute_run [SendToken 0, CancelCtx 1, CtxDone 1] (execute_init 2) =
     Some \<lparr>executeSema = 1,
           calls = [\<lparr>loc = InPhaseWork, ctx_done = False\<rparr>,
                    \<lparr>loc = InPhaseWork, ctx_done = True\<rparr>]\<rparr> \<and>
   execute_run [SendToken 0, CancelCtx 1, CtxDone 1, PhaseWorkDone 1, ReceiveToken 1]
       (execute_init 2) =
     Some \<lparr>executeSema = 0,
           calls = [\<lparr>loc = InPhaseWork, ctx_done = False\<rparr>,
                    \<lparr>loc = Returned, ctx_done = True\<rparr>]\<rparr>"
  by (simp add: execute_init_def stands_def move_def executeSema_cap_def numeral_2_eq_2)

section \<open>Updating the cluster configuration\<close>

lemma updateConfig_rejected:
  "validateClusterConfig d localEnv conf = Some err \<Longrightarrow>
   updateConfig d localEnv conf manual confirmed tr = (Some (TraceErr [] err), tr)"
  by (simp add: updateConfig_def)

lemma validateClusterConfig_checks:
  assumes "SiteOperator localEnv = Inr operator"
    and "GetLocalSite operator = Inr cluster"
    and "GetClusterConfiguration operator (site_Key cluster) = Inr existing"
    and "validate_ClusterConfiguration d existing update = None"
    and "findLocalServer d (Servers cluster) = Inr server"
  shows "validateClusterConfig d localEnv update =
     (if ServiceCIDR (GetGlobalConfig update) \<noteq> [] \<and>
         cidr_contains d (ServiceCIDR (GetGlobalConfig update)) (AdvertiseIP server)
      then Some (TraceErr [] (Error PreconditionFailed
             (serviceCIDR_message (AdvertiseIP server) (ServiceCIDR (GetGlobalConfig update)))))
      else if PodCIDR (GetGlobalConfig update) \<noteq> [] \<and>
         cidr_contains d (PodCIDR (GetGlobalConfig update)) (AdvertiseIP server)
      then Some (TraceErr [] (Error PreconditionFailed
             (podCIDR_message (AdvertiseIP server) (PodCIDR (GetGlobalConfig update)))))
      else None)"
  using assms by (simp add: validateClusterConfig_def NetworkOverlap_def)

lemma ex_lookups:
  "SiteOperator ex_localEnv = Inr ex_operator"
  "GetLocalSite ex_operator = Inr ex_site"
  "GetClusterConfiguration ex_operator (site_Key ex_site) = Inr ex_existing"
  "validate_ClusterConfiguration ex_collaborators ex_existing update = None"
  "findLocalServer ex_collaborators (Servers ex_site) = Inr ex_server"
  by (simp_all add: ex_localEnv_def ex_operator_def ex_site_def ex_collaborators_def)

lemma ex_ok_valid: "validateClusterConfig ex_collaborators ex_localEnv ex_update_ok = None"
  using validateClusterConfig_checks [OF ex_lookups, of ex_update_ok]
  by (simp add: ex_update_ok_def ex_collaborators_def)

lemma newConfigUpdater_created:
  assumes "Marshal d conf = Inr configBytes"
  shows "newConfigUpdater d conf tr =
      (newUpdater d \<lparr>resource = configBytes, initializer_config = conf\<rparr>,
       tr @ [NewUpdaterCall \<lparr>resource = configBytes, initializer_config = conf\<rparr>])"
  using assms by (simp add: newConfigUpdater_def Let_def)

text \<open>
  C6, as the code has it. When the lookups of \<open>validateClusterConfig\<close> succeed (the
  operator, the local cluster, its configuration), \<open>validate.ClusterConfiguration\<close>
  accepts the update and the local node is found, an update whose service CIDR is set
  and contains the advertise address of the local node is rejected with the message
  that names this address and the service CIDR; an update whose pod CIDR is set and
  contains the address, while the service CIDR does not conflict, is rejected with the
  message that names the address and the pod CIDR. Whatever makes
  \<open>validateClusterConfig\<close> reject the update, \<open>updateConfig\<close> returns that error wrapped
  and has done nothing else: no prompt, no updater, hence no operation and no plan.
\<close>

theorem updateConfig_rejects_CIDR_conflict:
  "(SiteOperator localEnv = Inr operator \<and>
    GetLocalSite operator = Inr cluster \<and>
    GetClusterConfiguration operator (site_Key cluster) = Inr existing \<and>
    validate_ClusterConfiguration d existing update = None \<and>
    findLocalServer d (Servers cluster) = Inr server \<and>
    ServiceCIDR (GetGlobalConfig update) \<noteq> [] \<and>
    cidr_contains d (ServiceCIDR (GetGlobalConfig update)) (AdvertiseIP server) \<longrightarrow>
      updateConfig d localEnv update manual confirmed tr =
        (Some (TraceErr [] (TraceErr [] (Error PreconditionFailed
           (serviceCIDR_message (AdvertiseIP server) (ServiceCIDR (GetGlobalConfig update)))))),
         tr)) \<and>
   (SiteOperator localEnv = Inr operator \<and>
    GetLocalSite operator = Inr cluster \<and>
    GetClusterConfiguration operator (site_Key cluster) = Inr existing \<and>
    validate_ClusterConfiguration d existing update = None \<and>
    findLocalServer d (Servers cluster) = Inr server \<and>
    \<not> (ServiceCIDR (GetGlobalConfig update) \<noteq> [] \<and>
       cidr_contains d (ServiceCIDR (GetGlobalConfig update)) (AdvertiseIP server)) \<and>
    PodCIDR (GetGlobalConfig update) \<noteq> [] \<and>
    cidr_contains d (PodCIDR (GetGlobalConfig update)) (AdvertiseIP server) \<longrightarrow>
      updateConfig d localEnv update manual confirmed tr =
        (Some (TraceErr [] (TraceErr [] (Error PreconditionFailed
           (podCIDR_message (AdvertiseIP server) (PodCIDR (GetGlobalConfig update)))))),
         tr)) \<and>
   (\<forall>err. validateClusterConfig d localEnv update = Some err \<longrightarrow>
      updateConfig d localEnv update manual confirmed tr = (Some (TraceErr [] err), tr))"
proof (intro conjI impI allI)
  assume a: "SiteOperator localEnv = Inr operator \<and>
    GetLocalSite operator = Inr cluster \<and>
    GetClusterConfiguration operator (site_Key cluster) = Inr existing \<and>
    validate_ClusterConfiguration d existing update = None \<and>
    findLocalServer d (Servers cluster) = Inr server \<and>
    ServiceCIDR (GetGlobalConfig update) \<noteq> [] \<and>
    cidr_contains d (ServiceCIDR (GetGlobalConfig update)) (AdvertiseIP server)"
  then have "validateClusterConfig d localEnv update =
      Some (TraceErr [] (Error PreconditionFailed
        (serviceCIDR_message (AdvertiseIP server) (ServiceCIDR (GetGlobalConfig update)))))"
    using validateClusterConfig_checks [of localEnv operator cluster existing d update server]
    by simp
  then show "updateConfig d localEnv update manual confirmed tr =
        (Some (TraceErr [] (TraceErr [] (Error PreconditionFailed
           (serviceCIDR_message (AdvertiseIP server) (ServiceCIDR (GetGlobalConfig update)))))),
         tr)"
    by (rule updateConfig_rejected)
next
  assume a: "SiteOperator localEnv = Inr operator \<and>
    GetLocalSite operator = Inr cluster \<and>
    GetClusterConfiguration operator (site_Key cluster) = Inr existing \<and>
    validate_ClusterConfiguration d existing update = None \<and>
    findLocalServer d (Servers cluster) = Inr server \<and>
    \<not> (ServiceCIDR (GetGlobalConfig update) \<noteq> [] \<and>
       cidr_contains d (ServiceCIDR (GetGlobalConfig update)) (AdvertiseIP server)) \<and>
    PodCIDR (GetGlobalConfig update) \<noteq> [] \<and>
    cidr_contains d (PodCIDR (GetGlobalConfig update)) (AdvertiseIP server)"
  then have "validateClusterConfig d localEnv update =
      Some (TraceErr [] (Error PreconditionFailed
        (podCIDR_message (AdvertiseIP server) (PodCIDR (GetGlobalConfig update)))))"
    using validateClusterConfig_checks [of localEnv operator cluster existing d update server]
    by auto
  then show "updateConfig d localEnv update manual confirmed tr =
        (Some (TraceErr [] (TraceErr [] (Error PreconditionFailed
           (podCIDR_message (AdvertiseIP server) (PodCIDR (GetGlobalConfig update)))))),
         tr)"
    by (rule updateConfig_rejected)
next
  fix err
  assume "validateClusterConfig d localEnv update = Some err"
  then show "updateConfig d localEnv update manual confirmed tr = (Some (TraceErr [] err), tr)"
    by (rule updateConfig_rejected)
qed

theorem updateConfig_rejects_CIDR_conflict_witness:
  "SiteOperator ex_localEnv = Inr ex_operator \<and>
   GetLocalSite ex_operator = Inr ex_site \<and>
   GetClusterConfiguration ex_operator (site_Key ex_site) = Inr ex_existing \<and>
   validate_ClusterConfiguration ex_collaborators ex_existing ex_update_service_conflict = None \<and>
   validate_ClusterConfiguration ex_collaborators ex_existing ex_update_pod_conflict = None \<and>
   findLocalServer ex_collaborators (Servers ex_site) = Inr ex_server \<and>
   cidr_contains ex_collaborators ''10.0.0.0/8'' ''10.0.0.5'' \<and>
   \<not> cidr_contains ex_collaborators ''172.16.0.0/16'' ''10.0.0.5'' \<and>
   updateConfig ex_collaborators ex_localEnv ex_update_service_conflict False False [] =
     (Some (TraceErr [] (TraceErr [] (Error PreconditionFailed
        ''The advertise address 10.0.0.5 conflicts with the global service network CIDR range 10.0.0.0/8. Please specify a different service CIDR.''))),
      []) \<and>
   updateConfig ex_collaborators ex_localEnv ex_update_pod_conflict False False [] =
     (Some (TraceErr [] (TraceErr [] (Error PreconditionFailed
        ''The advertise address 10.0.0.5 conflicts with the global pod network CIDR range 10.0.0.0/8. Please specify a different pod CIDR.''))),
      [])"
proof -
  have c: "cidr_contains ex_collaborators ''10.0.0.0/8'' ''10.0.0.5'' \<and>
      \<not> cidr_contains ex_collaborators ''172.16.0.0/16'' ''10.0.0.5''"
    by (simp add: ex_collaborators_def)
  have s: "updateConfig ex_collaborators ex_localEnv ex_update_service_conflict False False [] =
     (Some (TraceErr [] (TraceErr [] (Error PreconditionFailed
        (serviceCIDR_message ''10.0.0.5'' ''10.0.0.0/8'')))), [])"
    using updateConfig_rejects_CIDR_conflict [of ex_localEnv ex_operator ex_site ex_existing
        ex_collaborators ex_update_service_conflict ex_server False False "[]"] c
    by (simp add: ex_lookups ex_update_service_conflict_def ex_server_def)
  have p: "updateConfig ex_collaborators ex_localEnv ex_update_pod_conflict False False [] =
     (Some (TraceErr [] (TraceErr [] (Error PreconditionFailed
        (podCIDR_message ''10.0.0.5'' ''10.0.0.0/8'')))), [])"
    using updateConfig_rejects_CIDR_conflict [of ex_localEnv ex_operator ex_site ex_existing
        ex_collaborators ex_update_pod_conflict ex_server False False "[]"] c
    by (simp add: ex_lookups ex_update_pod_conflict_def ex_server_def)
  show ?thesis
    using c s p by (simp add: ex_lookups serviceCIDR_message_def podCIDR_message_def)
qed

text \<open>
  C6 as stated fails: the checks of the CIDR ranges come last. An update whose service
  CIDR contains the advertise address of the local node and that
  \<open>validate.ClusterConfiguration\<close> rejects is rejected with the error of that
  validation, which names neither the CIDR range nor the address.
\<close>

theorem updateConfig_other_rejection_first:
  "cidr_contains ex_collaborators_strict (ServiceCIDR (GetGlobalConfig ex_update_service_conflict))
     (AdvertiseIP ex_server) \<and>
   updateConfig ex_collaborators_strict ex_localEnv ex_update_service_conflict False True [] =
     (Some (TraceErr [] (TraceErr [] (Error BadParameter ''invalid configuration update''))), []) \<and>
   \<not> carries (TraceErr [] (TraceErr [] (Error BadParameter ''invalid configuration update'')))
       (Error PreconditionFailed
          (serviceCIDR_message (AdvertiseIP ex_server)
             (ServiceCIDR (GetGlobalConfig ex_update_service_conflict))))"
  by (simp add: updateConfig_def validateClusterConfig_def ex_collaborators_strict_def
        ex_collaborators_def ex_localEnv_def ex_operator_def ex_site_def
        ex_update_service_conflict_def ex_server_def)

text \<open>
  C7, as the code has it. For every confirmed invocation of \<open>updateConfig\<close> in manual
  mode (confirmed by the flag, or by the answer yes to the prompt) whose update passes
  \<open>validateClusterConfig\<close> and whose updater is created without error, \<open>updateConfig\<close>
  creates the updater (\<open>newUpdater\<close> creates the operation and its plan), prints the
  banner of the manual operation, closes the updater and returns \<open>nil\<close>; the updater is
  not run.
\<close>

theorem updateConfig_manual_creates_and_returns:
  assumes "validateClusterConfig d localEnv conf = None"
    and "Marshal d conf = Inr configBytes"
    and "newUpdater d \<lparr>resource = configBytes, initializer_config = conf\<rparr> = Inr updater"
    and "confirmed \<or> confirm d = Inr True"
  shows "updateConfig d localEnv conf True confirmed tr =
     (None,
      tr @ (if confirmed then [] else [Println updateConfigBannerManual, ConfirmPrompt]) @
        [NewUpdaterCall \<lparr>resource = configBytes, initializer_config = conf\<rparr>,
         Println updateConfigManualOperationBanner, UpdaterClose])"
  using assms by (auto simp add: updateConfig_def newConfigUpdater_created)

theorem updateConfig_manual_creates_and_returns_witness:
  "validateClusterConfig ex_collaborators ex_localEnv ex_update_ok = None \<and>
   Marshal ex_collaborators ex_update_ok = Inr ''spec'' \<and>
   newUpdater ex_collaborators \<lparr>resource = ''spec'', initializer_config = ex_update_ok\<rparr> =
     Inr ex_updater \<and>
   confirm ex_collaborators = Inr True \<and>
   updateConfig ex_collaborators ex_localEnv ex_update_ok True False [] =
     (None,
      [Println updateConfigBannerManual, ConfirmPrompt,
       NewUpdaterCall \<lparr>resource = ''spec'', initializer_config = ex_update_ok\<rparr>,
       Println updateConfigManualOperationBanner, UpdaterClose]) \<and>
   updateConfig ex_collaborators ex_localEnv ex_update_ok True True [] =
     (None,
      [NewUpdaterCall \<lparr>resource = ''spec'', initializer_config = ex_update_ok\<rparr>,
       Println updateConfigManualOperationBanner, UpdaterClose])"
proof -
  have h: "Marshal ex_collaborators ex_update_ok = Inr ''spec'' \<and>
      newUpdater ex_collaborators \<lparr>resource = ''spec'', initializer_config = ex_update_ok\<rparr> =
        Inr ex_updater \<and>
      confirm ex_collaborators = Inr True"
    by (simp add: ex_collaborators_def)
  show ?thesis
    using updateConfig_manual_creates_and_returns [of ex_collaborators ex_localEnv ex_update_ok "''spec''"
        ex_updater False "[]"]
      updateConfig_manual_creates_and_returns [of ex_collaborators ex_localEnv ex_update_ok "''spec''"
        ex_updater True "[]"] h ex_ok_valid
    by simp
qed

text \<open>
  C7 as stated fails. A confirmed invocation in manual mode whose update is rejected by
  \<open>validateClusterConfig\<close> (here by \<open>validate.ClusterConfiguration\<close>) returns the error;
  no updater is created and no banner is printed. One whose updater cannot be created
  returns the error of \<open>newUpdater\<close>, and no banner is printed either.
\<close>

theorem updateConfig_manual_rejected:
  "updateConfig ex_collaborators_strict ex_localEnv ex_update_ok True True [] =
     (Some (TraceErr [] (TraceErr [] (Error BadParameter ''invalid configuration update''))), []) \<and>
   updateConfig ex_collaborators_no_updater ex_localEnv ex_update_ok True True [] =
     (Some (TraceErr [] (Error Generic ''failed to create the operation'')),
      [NewUpdaterCall \<lparr>resource = ''spec'', initializer_config = ex_update_ok\<rparr>])"
  by (simp add: updateConfig_def validateClusterConfig_def newConfigUpdater_def
        ex_collaborators_strict_def ex_collaborators_no_updater_def ex_collaborators_def
        ex_localEnv_def ex_operator_def ex_site_def ex_update_ok_def)

text \<open>
  C9. \<open>newOperation\<close> returns the not-implemented error that carries the hint for the
  user exactly when \<open>CreateUpdateConfigOperation\<close> fails with a not-found error; any
  other error is returned wrapped; when the operator succeeds, the key of the new
  operation is returned.
\<close>

theorem newOperation_results:
  "(newOperation r operator cluster = Inl (Error NotImplemented newOperation_hint)) =
     (\<exists>err. CreateUpdateConfigOperation operator
               \<lparr>ClusterKey = site_Key cluster, Config = resource r\<rparr> = Inl err \<and>
            IsNotFound (Some err)) \<and>
   IsNotImplemented (Some (Error NotImplemented newOperation_hint)) \<and>
   (\<forall>err. CreateUpdateConfigOperation operator
            \<lparr>ClusterKey = site_Key cluster, Config = resource r\<rparr> = Inl err \<and>
          \<not> IsNotFound (Some err) \<longrightarrow>
      newOperation r operator cluster = Inl (TraceErr [] err)) \<and>
   (\<forall>key. CreateUpdateConfigOperation operator
            \<lparr>ClusterKey = site_Key cluster, Config = resource r\<rparr> = Inr key \<longrightarrow>
      newOperation r operator cluster = Inr key)"
  by (cases "CreateUpdateConfigOperation operator
               \<lparr>ClusterKey = site_Key cluster, Config = resource r\<rparr>")
     (auto simp add: newOperation_def IsNotImplemented_def has_kind_def)

theorem newOperation_results_witness:
  "CreateUpdateConfigOperation ex_operator_old
     \<lparr>ClusterKey = site_Key ex_site, Config = resource ex_initializer\<rparr> =
       Inl (TraceErr [] (Error NotFound ''no such endpoint'')) \<and>
   IsNotFound (Some (TraceErr [] (Error NotFound ''no such endpoint''))) \<and>
   newOperation ex_initializer ex_operator_old ex_site =
     Inl (Error NotImplemented newOperation_hint) \<and>
   \<not> IsNotFound (Some (Error BadParameter ''operation in progress'')) \<and>
   newOperation ex_initializer ex_operator_denied ex_site =
     Inl (TraceErr [] (Error BadParameter ''operation in progress'')) \<and>
   newOperation ex_initializer ex_operator ex_site = Inr ex_key"
proof -
  have old: "CreateUpdateConfigOperation ex_operator_old
     \<lparr>ClusterKey = site_Key ex_site, Config = resource ex_initializer\<rparr> =
       Inl (TraceErr [] (Error NotFound ''no such endpoint''))"
    by (simp add: ex_operator_old_def)
  have nf: "IsNotFound (Some (TraceErr [] (Error NotFound ''no such endpoint'')))"
    by (simp add: IsNotFound_def has_kind_def)
  have denied: "CreateUpdateConfigOperation ex_operator_denied
     \<lparr>ClusterKey = site_Key ex_site, Config = resource ex_initializer\<rparr> =
       Inl (Error BadParameter ''operation in progress'')"
    by (simp add: ex_operator_denied_def)
  have nnf: "\<not> IsNotFound (Some (Error BadParameter ''operation in progress''))"
    by (simp add: IsNotFound_def has_kind_def)
  have ok: "CreateUpdateConfigOperation ex_operator
     \<lparr>ClusterKey = site_Key ex_site, Config = resource ex_initializer\<rparr> = Inr ex_key"
    by (simp add: ex_operator_def)
  have 1: "newOperation ex_initializer ex_operator_old ex_site =
     Inl (Error NotImplemented newOperation_hint)"
    using newOperation_results [of ex_initializer ex_operator_old ex_site] old nf by blast
  have 2: "newOperation ex_initializer ex_operator_denied ex_site =
     Inl (TraceErr [] (Error BadParameter ''operation in progress''))"
    using newOperation_results [of ex_initializer ex_operator_denied ex_site] denied nnf by blast
  have 3: "newOperation ex_initializer ex_operator ex_site = Inr ex_key"
    using newOperation_results [of ex_initializer ex_operator ex_site] ok by blast
  show ?thesis using old nf nnf 1 2 3 by simp
qed

text \<open>
  C10. The hook \<open>validatePreconditions\<close> of the initializer returns \<open>nil\<close> for every
  input. The preconditions of the flavor are checked by \<open>validateClusterConfig\<close>, which
  \<open>updateConfig\<close> calls before it creates the updater: when \<open>validateClusterConfig\<close>
  rejects the update, \<open>updateConfig\<close> returns at once, and whenever \<open>updateConfig\<close> has
  called \<open>newUpdater\<close>, \<open>validateClusterConfig\<close> had accepted the update.
\<close>

theorem validatePreconditions_checks_nothing:
  "validatePreconditions r localEnv operator site = None \<and>
   (\<forall>err. validateClusterConfig d localEnv' conf = Some err \<longrightarrow>
      updateConfig d localEnv' conf manual confirmed tr = (Some (TraceErr [] err), tr)) \<and>
   (\<forall>init. NewUpdaterCall init \<in> set (snd (updateConfig d localEnv' conf manual confirmed tr)) \<and>
           NewUpdaterCall init \<notin> set tr \<longrightarrow>
      validateClusterConfig d localEnv' conf = None)"
proof (intro conjI allI impI)
  show "validatePreconditions r localEnv operator site = None"
    by (simp add: validatePreconditions_def)
next
  fix err
  assume "validateClusterConfig d localEnv' conf = Some err"
  then show "updateConfig d localEnv' conf manual confirmed tr = (Some (TraceErr [] err), tr)"
    by (rule updateConfig_rejected)
next
  fix init
  assume a: "NewUpdaterCall init \<in> set (snd (updateConfig d localEnv' conf manual confirmed tr)) \<and>
           NewUpdaterCall init \<notin> set tr"
  show "validateClusterConfig d localEnv' conf = None"
  proof (cases "validateClusterConfig d localEnv' conf")
    case None
    then show ?thesis .
  next
    case (Some err)
    then have "snd (updateConfig d localEnv' conf manual confirmed tr) = tr"
      by (simp add: updateConfig_rejected)
    then show ?thesis using a by simp
  qed
qed

theorem validatePreconditions_checks_nothing_witness:
  "validatePreconditions ex_initializer ex_localEnv ex_operator ex_site = None \<and>
   validateClusterConfig ex_collaborators_strict ex_localEnv ex_update_ok =
     Some (TraceErr [] (Error BadParameter ''invalid configuration update'')) \<and>
   updateConfig ex_collaborators_strict ex_localEnv ex_update_ok False True [] =
     (Some (TraceErr [] (TraceErr [] (Error BadParameter ''invalid configuration update''))), []) \<and>
   NewUpdaterCall \<lparr>resource = ''spec'', initializer_config = ex_update_ok\<rparr> \<in>
     set (snd (updateConfig ex_collaborators ex_localEnv ex_update_ok False True [])) \<and>
   validateClusterConfig ex_collaborators ex_localEnv ex_update_ok = None"
proof -
  have v: "validateClusterConfig ex_collaborators_strict ex_localEnv ex_update_ok =
     Some (TraceErr [] (Error BadParameter ''invalid configuration update''))"
    by (simp add: validateClusterConfig_def ex_collaborators_strict_def ex_collaborators_def
          ex_localEnv_def ex_operator_def ex_site_def)
  have m: "Marshal ex_collaborators ex_update_ok = Inr ''spec''"
    by (simp add: ex_collaborators_def)
  have u: "newUpdater ex_collaborators \<lparr>resource = ''spec'', initializer_config = ex_update_ok\<rparr> =
      Inr ex_updater"
    by (simp add: ex_collaborators_def)
  have n: "NewUpdaterCall \<lparr>resource = ''spec'', initializer_config = ex_update_ok\<rparr> \<in>
     set (snd (updateConfig ex_collaborators ex_localEnv ex_update_ok False True []))"
    by (simp add: updateConfig_def ex_ok_valid newConfigUpdater_created [OF m] u)
  have "validateClusterConfig ex_collaborators ex_localEnv ex_update_ok = None"
    using validatePreconditions_checks_nothing [of ex_initializer ex_localEnv ex_operator
        ex_site ex_collaborators ex_localEnv ex_update_ok False True "[]"] n
    by fastforce
  moreover have "updateConfig ex_collaborators_strict ex_localEnv ex_update_ok False True [] =
     (Some (TraceErr [] (TraceErr [] (Error BadParameter ''invalid configuration update''))), [])"
    using validatePreconditions_checks_nothing [of ex_initializer ex_localEnv ex_operator
        ex_site ex_collaborators_strict ex_localEnv ex_update_ok False True "[]"] v
    by blast
  moreover have "validatePreconditions ex_initializer ex_localEnv ex_operator ex_site = None"
    using validatePreconditions_checks_nothing [of ex_initializer ex_localEnv ex_operator
        ex_site ex_collaborators ex_localEnv ex_update_ok False True "[]"]
    by blast
  ultimately show ?thesis using v n by simp
qed

end
